theory Spec2Isabelle
  imports Complex_Main "HOL-Library.Sublist"
begin

section \<open>Numbers and vectors\<close>

text \<open>
  The simulation computes on numpy float64 arrays of two components. A component is
  modelled as a real number, an infinity or nan, and the arithmetic on the real numbers
  is exact: the rounding of float64, its overflow and underflow and the sign of a zero
  are not modelled. Where the program's result depends on them the model differs from
  the program; in particular the norm of a non-zero vector is non-zero here, while
  \<open>np.linalg.norm\<close> gives 0.0 for a vector whose squares underflow.

  numpy raises nothing on these operations. An operation with a nan operand gives nan,
  a comparison with a nan operand is false, and the infinities follow IEEE 754.
\<close>

datatype fnum = Fin real | PInf | NInf | NaN

text \<open>The infinity of the sign of a real number; nan for zero.\<close>

definition signed_inf :: "real \<Rightarrow> fnum" where
  "signed_inf s = (if 0 < s then PInf else if s < 0 then NInf else NaN)"

fun fadd :: "fnum \<Rightarrow> fnum \<Rightarrow> fnum" where
  "fadd (Fin x) (Fin y) = Fin (x + y)"
| "fadd NaN _ = NaN"
| "fadd _ NaN = NaN"
| "fadd PInf NInf = NaN"
| "fadd NInf PInf = NaN"
| "fadd PInf _ = PInf"
| "fadd _ PInf = PInf"
| "fadd NInf _ = NInf"
| "fadd _ NInf = NInf"

fun fsub :: "fnum \<Rightarrow> fnum \<Rightarrow> fnum" where
  "fsub (Fin x) (Fin y) = Fin (x - y)"
| "fsub NaN _ = NaN"
| "fsub _ NaN = NaN"
| "fsub PInf PInf = NaN"
| "fsub NInf NInf = NaN"
| "fsub PInf _ = PInf"
| "fsub _ NInf = PInf"
| "fsub NInf _ = NInf"
| "fsub _ PInf = NInf"

fun fmul :: "fnum \<Rightarrow> fnum \<Rightarrow> fnum" where
  "fmul (Fin x) (Fin y) = Fin (x * y)"
| "fmul NaN _ = NaN"
| "fmul _ NaN = NaN"
| "fmul (Fin x) PInf = signed_inf x"
| "fmul (Fin x) NInf = signed_inf (- x)"
| "fmul PInf (Fin y) = signed_inf y"
| "fmul NInf (Fin y) = signed_inf (- y)"
| "fmul PInf PInf = PInf"
| "fmul PInf NInf = NInf"
| "fmul NInf PInf = NInf"
| "fmul NInf NInf = PInf"

text \<open>
  Division on numpy values. A zero divisor gives nan when the dividend is zero too and
  an infinity otherwise. The infinity has the sign of the dividend when the divisor is
  the positive zero, which it is wherever \<open>update\<close> divides a non-zero number by zero:
  its divisors are norms and products of norms, and the mass, under which the dividend
  is a zero. Over the real numbers no division of \<open>update\<close> has a zero divisor under
  a non-zero dividend (\<open>update_divisions\<close>); in float64 the photon correction has one
  when the norm of a small velocity underflows.
\<close>

fun fdiv :: "fnum \<Rightarrow> fnum \<Rightarrow> fnum" where
  "fdiv (Fin x) (Fin y) = (if y = 0 then signed_inf x else Fin (x / y))"
| "fdiv NaN _ = NaN"
| "fdiv _ NaN = NaN"
| "fdiv (Fin x) PInf = Fin 0"
| "fdiv (Fin x) NInf = Fin 0"
| "fdiv PInf (Fin y) = (if y < 0 then NInf else PInf)"
| "fdiv NInf (Fin y) = (if y < 0 then PInf else NInf)"
| "fdiv PInf PInf = NaN"
| "fdiv PInf NInf = NaN"
| "fdiv NInf PInf = NaN"
| "fdiv NInf NInf = NaN"

fun fsqrt :: "fnum \<Rightarrow> fnum" where
  "fsqrt (Fin x) = (if x < 0 then NaN else Fin (sqrt x))"
| "fsqrt PInf = PInf"
| "fsqrt NInf = NaN"
| "fsqrt NaN = NaN"

fun fless :: "fnum \<Rightarrow> fnum \<Rightarrow> bool" where
  "fless (Fin x) (Fin y) = (x < y)"
| "fless NaN _ = False"
| "fless _ NaN = False"
| "fless NInf NInf = False"
| "fless NInf _ = True"
| "fless _ NInf = False"
| "fless PInf _ = False"
| "fless _ PInf = True"

type_synonym vec = "fnum \<times> fnum"

fun vadd :: "vec \<Rightarrow> vec \<Rightarrow> vec" where
  "vadd (a, b) (c, d) = (fadd a c, fadd b d)"

fun vsub :: "vec \<Rightarrow> vec \<Rightarrow> vec" where
  "vsub (a, b) (c, d) = (fsub a c, fsub b d)"

text \<open>Scalar times array, array times scalar, array divided by scalar.\<close>

fun smul :: "fnum \<Rightarrow> vec \<Rightarrow> vec" where
  "smul s (a, b) = (fmul s a, fmul s b)"

fun vmul :: "vec \<Rightarrow> fnum \<Rightarrow> vec" where
  "vmul (a, b) s = (fmul a s, fmul b s)"

fun vdiv :: "vec \<Rightarrow> fnum \<Rightarrow> vec" where
  "vdiv (a, b) s = (fdiv a s, fdiv b s)"

text \<open>
  \<open>np.linalg.norm\<close> of a two-component array: the square root of the sum of the
  squares, here without the underflow and overflow of the squares.
\<close>

fun vnorm :: "vec \<Rightarrow> fnum" where
  "vnorm (a, b) = fsqrt (fadd (fmul a a) (fmul b b))"

section \<open>Configuration\<close>

definition G :: real where "G = 1"
definition M :: real where "M = 1000"
definition C :: real where "C = 15"

definition TIME_STEP :: real where "TIME_STEP = 1 / 10"
definition STEPS :: nat where "STEPS = 1000"

text \<open>
  A particle descriptor: \<open>pos\<close> and \<open>vel\<close> are lists of two Python values, each a
  number or \<open>None\<close>; \<open>offset_factor\<close> is \<open>None\<close> when the key is absent (or holds
  \<open>None\<close>: the source reads it with \<open>p.get\<close> and tests \<open>is not None\<close>).
\<close>

record descriptor =
  d_pos :: "real option \<times> real option"
  d_vel :: "real option \<times> real option"
  d_is_photon :: bool
  d_offset_factor :: "real option"

definition PARTICLES :: "descriptor list" where
  "PARTICLES =
    [\<lparr>d_pos = (Some 100, Some 0), d_vel = (Some 0, Some (15 / 2)),
      d_is_photon = False, d_offset_factor = None\<rparr>,
     \<lparr>d_pos = (Some (- 110), Some 0), d_vel = (Some 0, Some (- 7)),
      d_is_photon = False, d_offset_factor = None\<rparr>,
     \<lparr>d_pos = (Some 0, Some 130), d_vel = (Some (- (13 / 2)), Some 0),
      d_is_photon = False, d_offset_factor = None\<rparr>,
     \<lparr>d_pos = (Some 0, Some (- 140)), d_vel = (Some 6, Some 0),
      d_is_photon = False, d_offset_factor = None\<rparr>,
     \<lparr>d_pos = (Some (- 250), Some 50), d_vel = (Some 7, Some 0),
      d_is_photon = False, d_offset_factor = None\<rparr>,
     \<lparr>d_pos = (Some (- 250), None), d_vel = (Some C, Some 0),
      d_is_photon = True, d_offset_factor = Some (3 / 2)\<rparr>,
     \<lparr>d_pos = (Some (- 250), None), d_vel = (Some C, Some 0),
      d_is_photon = True, d_offset_factor = Some (4 / 5)\<rparr>]"

section \<open>Particle\<close>

record particle =
  pos :: vec
  vel :: vec
  mass :: real
  path :: "vec list"
  is_captured :: bool
  is_photon :: bool

text \<open>\<open>np.array(xs, dtype=float)\<close> on a list of two: \<open>None\<close> becomes nan.\<close>

fun to_float :: "real option \<Rightarrow> fnum" where
  "to_float (Some x) = Fin x"
| "to_float None = NaN"

fun np_array :: "real option \<times> real option \<Rightarrow> vec" where
  "np_array (a, b) = (to_float a, to_float b)"

text \<open>\<open>Particle.__init__\<close>; the source's default for \<open>mass\<close> is 1.0.\<close>

definition Particle :: "real option \<times> real option \<Rightarrow> real option \<times> real option \<Rightarrow> real \<Rightarrow> bool \<Rightarrow> particle" where
  "Particle p v m ph =
     \<lparr>pos = np_array p, vel = np_array v, mass = m, path = [np_array p],
      is_captured = False, is_photon = ph\<rparr>"

text \<open>
  The local values of \<open>Particle.update\<close>, in the order the source computes them. The
  time step and the mass are Python floats, the position of the body is an array.
\<close>

definition r_vec :: "vec \<Rightarrow> particle \<Rightarrow> vec" where
  "r_vec black_hole_pos p = vsub black_hole_pos (pos p)"

definition r_mag :: "vec \<Rightarrow> particle \<Rightarrow> fnum" where
  "r_mag black_hole_pos p = vnorm (r_vec black_hole_pos p)"

definition force_mag :: "vec \<Rightarrow> particle \<Rightarrow> fnum" where
  "force_mag black_hole_pos p =
     fdiv (Fin (G * M * mass p)) (fmul (r_mag black_hole_pos p) (r_mag black_hole_pos p))"

definition force_vec :: "vec \<Rightarrow> particle \<Rightarrow> vec" where
  "force_vec black_hole_pos p =
     smul (force_mag black_hole_pos p) (vdiv (r_vec black_hole_pos p) (r_mag black_hole_pos p))"

definition acceleration :: "vec \<Rightarrow> particle \<Rightarrow> vec" where
  "acceleration black_hole_pos p = vdiv (force_vec black_hole_pos p) (Fin (mass p))"

text \<open>The velocity after \<open>self.vel += acceleration * dt\<close>.\<close>

definition vel_gravity :: "real \<Rightarrow> vec \<Rightarrow> particle \<Rightarrow> vec" where
  "vel_gravity dt black_hole_pos p = vadd (vel p) (vmul (acceleration black_hole_pos p) (Fin dt))"

text \<open>The photon speed correction \<open>(self.vel / np.linalg.norm(self.vel)) * C\<close>.\<close>

definition photon_correction :: "vec \<Rightarrow> vec" where
  "photon_correction v = vmul (vdiv v (vnorm v)) (Fin C)"

definition update :: "real \<Rightarrow> vec \<Rightarrow> particle \<Rightarrow> particle" where
  "update dt black_hole_pos p =
     (if is_captured p then p
      else if r_mag black_hole_pos p = Fin 0 then p
      else
        let v1 = vel_gravity dt black_hole_pos p;
            v2 = (if is_photon p then photon_correction v1 else v1);
            x2 = vadd (pos p) (vmul v2 (Fin dt))
        in p\<lparr>vel := v2, pos := x2, path := path p @ [x2]\<rparr>)"

section \<open>The driver\<close>

text \<open>
  The locals of \<open>run_simulation\<close>. The radius is computed on Python floats, where a
  zero divisor would raise; \<open>C\<close> is 15.
\<close>

definition black_hole_pos :: vec where
  "black_hole_pos = (Fin 0, Fin 0)"

definition schwarzschild_radius :: real where
  "schwarzschild_radius = (2 * G * M) / (C ^ 2)"

text \<open>
  Setting up one particle: a descriptor with an \<open>offset_factor\<close> has the second
  component of its position overwritten before the particle is built.
\<close>

definition init_particle :: "descriptor \<Rightarrow> particle" where
  "init_particle d =
     (let p0 = (case d_offset_factor d of
                  Some f \<Rightarrow> (fst (d_pos d), Some (schwarzschild_radius * f))
                | None \<Rightarrow> d_pos d)
      in Particle p0 (d_vel d) 1 (d_is_photon d))"

definition init_particles :: "descriptor list \<Rightarrow> particle list" where
  "init_particles ds = map init_particle ds"

text \<open>The capture test of the loop body, then the call of \<open>update\<close>.\<close>

definition dist_to_bh :: "particle \<Rightarrow> fnum" where
  "dist_to_bh p = vnorm (vsub (pos p) black_hole_pos)"

definition capture_test :: "particle \<Rightarrow> particle" where
  "capture_test p =
     (if fless (dist_to_bh p) (Fin schwarzschild_radius) then p\<lparr>is_captured := True\<rparr> else p)"

definition tick_particle :: "particle \<Rightarrow> particle" where
  "tick_particle p = update TIME_STEP black_hole_pos (capture_test p)"

text \<open>
  One pass of the outer loop. The particles do not read each other, and drawing reads
  the particles only, so the inner loop is a map.
\<close>

definition tick :: "particle list \<Rightarrow> particle list" where
  "tick ps = map tick_particle ps"

fun run_steps :: "nat \<Rightarrow> particle list \<Rightarrow> particle list" where
  "run_steps 0 ps = ps"
| "run_steps (Suc n) ps = run_steps n (tick ps)"

definition run_simulation :: "particle list" where
  "run_simulation = run_steps STEPS (init_particles PARTICLES)"

section \<open>Facts about the arithmetic\<close>

lemma signed_inf_zero [simp]: "signed_inf 0 = NaN"
  by (simp add: signed_inf_def)

lemma signed_inf_not_fin [simp]: "signed_inf s \<noteq> Fin y" "Fin y \<noteq> signed_inf s"
  by (simp_all add: signed_inf_def)

lemma sq_sum_nonneg [simp]: "\<not> x * x + y * y < (0::real)"
  by (simp add: not_less)

lemma vnorm_fin: "vnorm (Fin x, Fin y) = Fin (sqrt (x * x + y * y))"
proof -
  have "\<not> x * x + y * y < 0" by (simp add: not_less)
  then show ?thesis by simp
qed

lemma vnorm_nan: "vnorm (NaN, b) = NaN" "vnorm (a, NaN) = NaN"
  by (cases b; simp) (cases a; simp)

lemma vnorm_zero_iff: "vnorm v = Fin 0 \<longleftrightarrow> v = (Fin 0, Fin 0)"
proof (cases v)
  case (Pair a b)
  show ?thesis unfolding Pair
    by (cases a; cases b) (simp_all add: sum_squares_eq_zero_iff)
qed

lemma vnorm_vsub_swap: "vnorm (vsub a b) = vnorm (vsub b a)"
proof -
  obtain a1 a2 b1 b2 where ab: "a = (a1, a2)" "b = (b1, b2)" by (cases a, cases b) auto
  have sq: "(x - y) * (x - y) = (y - x) * (y - x)" for x y :: real by algebra
  show ?thesis unfolding ab
    by (cases a1; cases a2; cases b1; cases b2) (simp_all add: sq)
qed

lemma sqrt_sq_x: "sqrt (x\<^sup>2 + 0\<^sup>2) = \<bar>x\<bar>" for x :: real
  by simp

lemma sqrt_sq_y: "sqrt (0\<^sup>2 + y\<^sup>2) = \<bar>y\<bar>" for y :: real
  by simp

lemma vnorm_x_axis: "vnorm (Fin x, Fin 0) = Fin \<bar>x\<bar>"
  by (simp add: vnorm_fin)

lemma r_vec_fin:
  "pos p = (Fin x, Fin y) \<Longrightarrow> r_vec (Fin cx, Fin cy) p = (Fin (cx - x), Fin (cy - y))"
  by (simp add: r_vec_def)

lemma r_mag_fin:
  "pos p = (Fin x, Fin y) \<Longrightarrow>
   r_mag (Fin cx, Fin cy) p = Fin (sqrt ((cx - x)\<^sup>2 + (cy - y)\<^sup>2))"
  by (simp add: r_mag_def r_vec_fin vnorm_fin power2_eq_square)

lemma vel_gravity_fin:
  assumes "pos p = (Fin x, Fin y)" and "vel p = (Fin u, Fin w)"
    and "mass p \<noteq> 0" and "r = sqrt ((cx - x)\<^sup>2 + (cy - y)\<^sup>2)" and "r \<noteq> 0"
  shows "vel_gravity dt (Fin cx, Fin cy) p =
           (Fin (u + G * M / r\<^sup>2 * ((cx - x) / r) * dt),
            Fin (w + G * M / r\<^sup>2 * ((cy - y) / r) * dt))"
proof -
  have rm: "r_mag (Fin cx, Fin cy) p = Fin r"
    using assms(1,4) by (simp add: r_mag_fin)
  have fm: "force_mag (Fin cx, Fin cy) p = Fin (G * M * mass p / (r * r))"
    using \<open>r \<noteq> 0\<close> by (simp add: force_mag_def rm)
  have fv: "force_vec (Fin cx, Fin cy) p =
              (Fin (G * M * mass p / (r * r) * ((cx - x) / r)),
               Fin (G * M * mass p / (r * r) * ((cy - y) / r)))"
    using \<open>r \<noteq> 0\<close> assms(1) by (simp add: force_vec_def fm rm r_vec_fin)
  have ac: "acceleration (Fin cx, Fin cy) p =
              (Fin (G * M / r\<^sup>2 * ((cx - x) / r)), Fin (G * M / r\<^sup>2 * ((cy - y) / r)))"
    using \<open>mass p \<noteq> 0\<close> by (simp add: acceleration_def fv power2_eq_square)
  show ?thesis
    using assms(2) by (simp add: vel_gravity_def ac)
qed

lemma photon_correction_zero: "photon_correction (Fin 0, Fin 0) = (NaN, NaN)"
  by (simp add: photon_correction_def)

lemma update_divisions:
  "r_mag bh p \<noteq> Fin 0 \<Longrightarrow> fmul (r_mag bh p) (r_mag bh p) \<noteq> Fin 0"
  "mass p = 0 \<Longrightarrow> r_mag bh p \<noteq> Fin 0 \<Longrightarrow>
     fst (force_vec bh p) \<in> {Fin 0, NaN} \<and> snd (force_vec bh p) \<in> {Fin 0, NaN}"
  "vnorm v = Fin 0 \<Longrightarrow> v = (Fin 0, Fin 0)"
proof -
  show "r_mag bh p \<noteq> Fin 0 \<Longrightarrow> fmul (r_mag bh p) (r_mag bh p) \<noteq> Fin 0"
    by (cases "r_mag bh p") simp_all
  show "vnorm v = Fin 0 \<Longrightarrow> v = (Fin 0, Fin 0)"
    by (simp add: vnorm_zero_iff)
  assume m: "mass p = 0" and r: "r_mag bh p \<noteq> Fin 0"
  obtain c d where cd: "vdiv (r_vec bh p) (r_mag bh p) = (c, d)" by (cases "vdiv (r_vec bh p) (r_mag bh p)")
  have "force_mag bh p = Fin 0 \<or> force_mag bh p = NaN"
    using m r by (cases "r_mag bh p") (simp_all add: force_mag_def)
  then show "fst (force_vec bh p) \<in> {Fin 0, NaN} \<and> snd (force_vec bh p) \<in> {Fin 0, NaN}"
    by (cases c; cases d) (auto simp: force_vec_def cd)
qed

section \<open>Facts about \<open>update\<close> and the driver\<close>

lemma schwarzschild_radius_value: "schwarzschild_radius = 80 / 9"
  by (simp add: schwarzschild_radius_def G_def M_def C_def)

lemma schwarzschild_radius_pos: "0 < schwarzschild_radius"
  by (simp add: schwarzschild_radius_value)

lemma vsub_origin: "vsub v black_hole_pos = v"
  by (cases v; cases "fst v"; cases "snd v") (simp_all add: black_hole_pos_def)

lemma dist_to_bh_r_mag: "dist_to_bh p = r_mag black_hole_pos p"
  by (simp add: dist_to_bh_def r_mag_def r_vec_def vnorm_vsub_swap)

lemma update_captured: "is_captured p \<Longrightarrow> update dt bh p = p"
  by (simp add: update_def)

lemma update_coincident: "r_mag bh p = Fin 0 \<Longrightarrow> update dt bh p = p"
  by (simp add: update_def)

lemma update_is_captured: "is_captured (update dt bh p) = is_captured p"
  by (simp add: update_def Let_def)

lemma update_is_photon: "is_photon (update dt bh p) = is_photon p"
  by (simp add: update_def Let_def)

lemma update_mass: "mass (update dt bh p) = mass p"
  by (simp add: update_def Let_def)

lemma update_path_active:
  "\<not> is_captured p \<Longrightarrow> r_mag bh p \<noteq> Fin 0 \<Longrightarrow>
   path (update dt bh p) = path p @ [pos (update dt bh p)]"
  by (simp add: update_def Let_def)

lemma capture_test_is_captured:
  "is_captured (capture_test p) \<longleftrightarrow> is_captured p \<or> fless (dist_to_bh p) (Fin schwarzschild_radius)"
  by (simp add: capture_test_def)

lemma capture_test_path: "path (capture_test p) = path p"
  by (simp add: capture_test_def)

lemma capture_test_pos: "pos (capture_test p) = pos p"
  by (simp add: capture_test_def)

lemma capture_test_r_mag: "r_mag bh (capture_test p) = r_mag bh p"
  by (simp add: r_mag_def r_vec_def capture_test_pos)

lemma tick_particle_is_captured:
  "is_captured (tick_particle p) \<longleftrightarrow> is_captured p \<or> fless (dist_to_bh p) (Fin schwarzschild_radius)"
  by (simp add: tick_particle_def update_is_captured capture_test_is_captured)

lemma tick_particle_captured: "is_captured (tick_particle p) \<Longrightarrow> tick_particle p = capture_test p"
  by (simp add: tick_particle_def update_is_captured update_captured)

lemma active_not_coincident:
  assumes "\<not> is_captured (tick_particle p)"
  shows "r_mag black_hole_pos p \<noteq> Fin 0"
proof
  assume "r_mag black_hole_pos p = Fin 0"
  then have "fless (dist_to_bh p) (Fin schwarzschild_radius)"
    using schwarzschild_radius_pos by (simp add: dist_to_bh_r_mag)
  with assms show False by (simp add: tick_particle_is_captured)
qed

lemma tick_particle_path_active:
  assumes "\<not> is_captured (tick_particle p)"
  shows "path (tick_particle p) = path p @ [pos (tick_particle p)]"
proof -
  have nc: "\<not> is_captured (capture_test p)"
    using assms by (simp add: tick_particle_def update_is_captured)
  have "r_mag black_hole_pos (capture_test p) \<noteq> Fin 0"
    using active_not_coincident [OF assms] by (simp add: capture_test_r_mag)
  from update_path_active [OF nc this] show ?thesis
    by (simp add: tick_particle_def capture_test_path)
qed

lemma tick_particle_path_captured:
  "is_captured (tick_particle p) \<Longrightarrow> path (tick_particle p) = path p"
  using tick_particle_captured [of p] by (simp add: capture_test_path)

lemma run_steps_map: "run_steps n ps = map (tick_particle ^^ n) ps"
proof (induction n arbitrary: ps)
  case 0
  show ?case by simp
next
  case (Suc n)
  show ?case by (simp add: Suc tick_def funpow_swap1)
qed

lemma ticks_captured_mono:
  "is_captured ((tick_particle ^^ m) p) \<Longrightarrow> is_captured ((tick_particle ^^ (m + n)) p)"
proof (induction n)
  case 0
  then show ?case by simp
next
  case (Suc n)
  then show ?case by (simp add: tick_particle_is_captured)
qed

lemma ticks_active_before:
  "\<not> is_captured ((tick_particle ^^ n) p) \<Longrightarrow> m \<le> n \<Longrightarrow> \<not> is_captured ((tick_particle ^^ m) p)"
  using ticks_captured_mono [of m p "n - m"] by auto

lemma ticks_path_active:
  "\<not> is_captured ((tick_particle ^^ n) p) \<Longrightarrow>
   length (path ((tick_particle ^^ n) p)) = length (path p) + n"
proof (induction n)
  case 0
  show ?case by simp
next
  case (Suc n)
  from Suc.prems have now: "\<not> is_captured (tick_particle ((tick_particle ^^ n) p))" by simp
  from Suc.prems have "\<not> is_captured ((tick_particle ^^ n) p)"
    using ticks_active_before [of "Suc n" p n] by simp
  then have "length (path ((tick_particle ^^ n) p)) = length (path p) + n" by (rule Suc.IH)
  with tick_particle_path_active [OF now] show ?case by simp
qed

lemma ticks_path_frozen:
  "is_captured ((tick_particle ^^ m) p) \<Longrightarrow>
   path ((tick_particle ^^ (m + n)) p) = path ((tick_particle ^^ m) p)"
proof (induction n)
  case 0
  show ?case by simp
next
  case (Suc n)
  then have "is_captured (tick_particle ((tick_particle ^^ (m + n)) p))"
    using ticks_captured_mono [of m p "Suc n"] by simp
  from tick_particle_path_captured [OF this] Suc show ?case by simp
qed


lemma capture_test_captured: "is_captured p \<Longrightarrow> capture_test p = p"
  by (cases p) (simp add: capture_test_def)

lemma tick_particle_fixed: "is_captured p \<Longrightarrow> tick_particle p = p"
  by (simp add: tick_particle_def capture_test_captured update_captured)

lemma ticks_fixed: "is_captured p \<Longrightarrow> (tick_particle ^^ n) p = p"
  by (induction n) (simp_all add: tick_particle_fixed)

lemma tick_particle_capture:
  assumes "\<not> is_captured p" and "is_captured (tick_particle p)"
  shows "tick_particle p = p\<lparr>is_captured := True\<rparr>"
proof -
  from assms have "fless (dist_to_bh p) (Fin schwarzschild_radius)"
    by (simp add: tick_particle_is_captured)
  then have "capture_test p = p\<lparr>is_captured := True\<rparr>" by (simp add: capture_test_def)
  with tick_particle_captured [OF assms(2)] show ?thesis by simp
qed

lemma update_path_prefix: "prefix (path p) (path (update dt bh p))"
  by (simp add: update_def Let_def)

lemma tick_particle_path_prefix: "prefix (path p) (path (tick_particle p))"
  using update_path_prefix [of "capture_test p" TIME_STEP black_hole_pos]
  by (simp add: tick_particle_def capture_test_path)

lemma ticks_path_prefix: "prefix (path p) (path ((tick_particle ^^ n) p))"
proof (induction n)
  case 0
  show ?case by simp
next
  case (Suc n)
  have "prefix (path ((tick_particle ^^ n) p)) (path (tick_particle ((tick_particle ^^ n) p)))"
    by (rule tick_particle_path_prefix)
  with Suc show ?case by (auto intro: prefix_order.trans)
qed

lemma run_steps_nth: "i < length ps \<Longrightarrow> run_steps n ps ! i = (tick_particle ^^ n) (ps ! i)"
  by (simp add: run_steps_map)

lemma run_steps_length: "length (run_steps n ps) = length ps"
  by (simp add: run_steps_map)

lemma init_particle_path: "path (init_particle d) = [pos (init_particle d)]"
  by (simp add: init_particle_def Particle_def Let_def)

lemma init_particle_active: "\<not> is_captured (init_particle d)"
  by (simp add: init_particle_def Particle_def Let_def)

lemma run_steps_1: "run_steps 1 ps = tick ps"
  unfolding One_nat_def by simp

section \<open>The step of a particle\<close>

text \<open>
  C5. A captured particle is not changed by \<open>update\<close>: the call returns at its first
  test, so position, velocity, mass, path and both flags are those of the particle
  before the call, and no division is evaluated.
\<close>

theorem update_captured_noop: "is_captured p \<Longrightarrow> update dt bh p = p"
  unfolding update_def by simp

theorem update_captured_noop_witness:
  "is_captured (capture_test (Particle (Some 8, Some 0) (Some 0, Some 0) 1 False)) \<and>
   update TIME_STEP black_hole_pos (capture_test (Particle (Some 8, Some 0) (Some 0, Some 0) 1 False))
     = capture_test (Particle (Some 8, Some 0) (Some 0, Some 0) 1 False)"
proof -
  have h: "is_captured (capture_test (Particle (Some 8, Some 0) (Some 0, Some 0) 1 False))"
    by (simp add: capture_test_def dist_to_bh_def Particle_def vsub_origin vnorm_x_axis
        schwarzschild_radius_value)
  from h update_captured_noop [OF h] show ?thesis by simp
qed

text \<open>
  C6. For an active particle and a body at a finite position, \<open>r_mag\<close> is zero exactly
  when the particle is at the body's position, and then \<open>update\<close> returns the particle
  as it was: velocity, position and path are unchanged, and the force computation with
  its divisions by \<open>r_mag\<close> is not reached.
\<close>

theorem update_coincident_skipped:
  assumes "\<not> is_captured p" and "bh = (Fin cx, Fin cy)"
  shows "(r_mag bh p = Fin 0 \<longleftrightarrow> pos p = bh) \<and> (pos p = bh \<longrightarrow> update dt bh p = p)"
proof -
  obtain a b where ab: "pos p = (a, b)" by (cases "pos p")
  have iff: "r_mag bh p = Fin 0 \<longleftrightarrow> pos p = bh"
    unfolding r_mag_def r_vec_def vnorm_zero_iff ab assms(2)
    by (cases a; cases b) auto
  then show ?thesis by (auto simp: update_coincident)
qed

theorem update_coincident_skipped_witness:
  "r_mag black_hole_pos (Particle (Some 0, Some 0) (Some 3, Some 4) 1 False) = Fin 0 \<and>
   update TIME_STEP black_hole_pos (Particle (Some 0, Some 0) (Some 3, Some 4) 1 False)
     = Particle (Some 0, Some 0) (Some 3, Some 4) 1 False"
proof -
  let ?p = "Particle (Some 0, Some 0) (Some 3, Some 4) 1 False"
  have a: "\<not> is_captured ?p" by (simp add: Particle_def)
  have b: "black_hole_pos = (Fin 0, Fin 0)" by (simp add: black_hole_pos_def)
  have c: "pos ?p = black_hole_pos" by (simp add: Particle_def black_hole_pos_def)
  from update_coincident_skipped [OF a b, of TIME_STEP] c show ?thesis by blast
qed




text \<open>
  C3. The photon speed correction is to leave a photon with a velocity of magnitude
  \<open>C\<close>, and it divides by the norm of the velocity without a test of that norm. A
  photon at \<open>(10, 0)\<close> with velocity \<open>(1, 0)\<close> has the velocity zero after the
  gravity update of one time step: the correction divides zero by zero, the step is
  completed all the same, and the photon leaves it with nan for its velocity and its
  position and with the nan position appended to its path. The magnitude of that
  velocity is not \<open>C\<close>. The driver's first tick on that photon is this step: at distance
  10 it is not captured. The other division of the step by a norm, that by \<open>r_mag\<close>,
  stands behind a test for zero.
\<close>

theorem photon_correction_zero_velocity:
  "is_photon (Particle (Some 10, Some 0) (Some 1, Some 0) 1 True) \<and>
   \<not> is_captured (Particle (Some 10, Some 0) (Some 1, Some 0) 1 True) \<and>
   vel_gravity TIME_STEP black_hole_pos (Particle (Some 10, Some 0) (Some 1, Some 0) 1 True)
     = (Fin 0, Fin 0) \<and>
   update TIME_STEP black_hole_pos (Particle (Some 10, Some 0) (Some 1, Some 0) 1 True)
     = (Particle (Some 10, Some 0) (Some 1, Some 0) 1 True)
         \<lparr>vel := (NaN, NaN), pos := (NaN, NaN), path := [(Fin 10, Fin 0), (NaN, NaN)]\<rparr> \<and>
   vnorm (vel (update TIME_STEP black_hole_pos (Particle (Some 10, Some 0) (Some 1, Some 0) 1 True)))
     \<noteq> Fin C \<and>
   run_steps (Suc 0) [Particle (Some 10, Some 0) (Some 1, Some 0) 1 True] ! 0
     = update TIME_STEP black_hole_pos (Particle (Some 10, Some 0) (Some 1, Some 0) 1 True)"
proof -
  let ?p = "Particle (Some 10, Some 0) (Some 1, Some 0) 1 True"
  have a: "\<not> is_captured ?p" and ph: "is_photon ?p" by (simp_all add: Particle_def)
  have r0: "sqrt ((0 - 10)\<^sup>2 + (0 - 0)\<^sup>2) = (10::real)" using sqrt_sq_x [of "- 10"] by simp
  have rm: "r_mag black_hole_pos ?p = Fin 10"
    unfolding black_hole_pos_def using r_mag_fin [of ?p 10 0 0 0] r0 by (simp add: Particle_def)
  have "vel_gravity TIME_STEP black_hole_pos ?p =
              (Fin (1 + G * M / 10\<^sup>2 * ((0 - 10) / 10) * TIME_STEP),
               Fin (0 + G * M / 10\<^sup>2 * ((0 - 0) / 10) * TIME_STEP))"
    unfolding black_hole_pos_def
    by (rule vel_gravity_fin) (simp_all add: Particle_def r0)
  then have vg: "vel_gravity TIME_STEP black_hole_pos ?p = (Fin 0, Fin 0)"
    by (simp add: G_def M_def TIME_STEP_def)
  have u: "update TIME_STEP black_hole_pos ?p =
             ?p\<lparr>vel := (NaN, NaN), pos := (NaN, NaN), path := [(Fin 10, Fin 0), (NaN, NaN)]\<rparr>"
    by (simp add: update_def rm vg photon_correction_zero Let_def a ph) (simp add: Particle_def)
  have n: "vnorm (vel (update TIME_STEP black_hole_pos ?p)) \<noteq> Fin C"
    unfolding u by simp
  have "capture_test ?p = ?p"
    by (simp add: capture_test_def dist_to_bh_def Particle_def vsub_origin vnorm_x_axis
        schwarzschild_radius_value)
  then have d: "run_steps (Suc 0) [?p] ! 0 = update TIME_STEP black_hole_pos ?p"
    by (simp add: tick_def tick_particle_def)
  from ph a vg u n d show ?thesis by (intro conjI)
qed

section \<open>The ticks of the driver\<close>

text \<open>
  C4. In every tick the driver applies the capture test and then \<open>update\<close> to every
  particle of its list: the particle \<open>i\<close> after \<open>n + 1\<close> ticks is \<open>update\<close> of the
  capture test of the particle \<open>i\<close> after \<open>n\<close> ticks. The capture test changes the
  flag only, and leaves it set exactly when it was set before or the position is a
  finite \<open>(x, y)\<close> whose distance \<open>sqrt (x\<^sup>2 + y\<^sup>2)\<close> from the body is less than
  \<open>2 * G * M / C\<^sup>2\<close>; a position with a nan or an infinite coordinate is not
  captured. The test reads the position before the step and precedes it: when it
  captures an active particle, the tick changes nothing but the flag.
\<close>

theorem capture_test_before_update:
  assumes "i < length ps"
  shows "length (tick ps) = length ps \<and>
         tick ps ! i = update TIME_STEP black_hole_pos (capture_test (ps ! i)) \<and>
         run_steps (Suc n) ps ! i =
           update TIME_STEP black_hole_pos (capture_test (run_steps n ps ! i)) \<and>
         capture_test q =
           q\<lparr>is_captured := is_captured q \<or>
              (case pos q of (Fin x, Fin y) \<Rightarrow> sqrt (x\<^sup>2 + y\<^sup>2) < 2 * G * M / C\<^sup>2
               | _ \<Rightarrow> False)\<rparr> \<and>
         (\<not> is_captured (ps ! i) \<and>
          (case pos (ps ! i) of (Fin x, Fin y) \<Rightarrow> sqrt (x\<^sup>2 + y\<^sup>2) < 2 * G * M / C\<^sup>2
           | _ \<Rightarrow> False) \<longrightarrow>
            tick ps ! i = (ps ! i)\<lparr>is_captured := True\<rparr>)"
proof -
  have t: "tick ps ! i = update TIME_STEP black_hole_pos (capture_test (ps ! i))"
    using assms by (simp add: tick_def tick_particle_def)
  have "run_steps (Suc n) ps ! i = tick_particle (run_steps n ps ! i)"
    using run_steps_nth [OF assms, of "Suc n"] run_steps_nth [OF assms, of n] by simp
  then have r: "run_steps (Suc n) ps ! i =
      update TIME_STEP black_hole_pos (capture_test (run_steps n ps ! i))"
    by (simp add: tick_particle_def)
  have c: "capture_test q' =
           q'\<lparr>is_captured := is_captured q' \<or>
              (case pos q' of (Fin x, Fin y) \<Rightarrow> sqrt (x\<^sup>2 + y\<^sup>2) < 2 * G * M / C\<^sup>2
               | _ \<Rightarrow> False)\<rparr>" for q'
  proof (cases "pos q'")
    case (Pair a b)
    show ?thesis
      by (cases a; cases b)
        (simp_all add: capture_test_def dist_to_bh_def vsub_origin Pair
          schwarzschild_radius_def power2_eq_square)
  qed
  have k: "tick ps ! i = (ps ! i)\<lparr>is_captured := True\<rparr>"
    if "\<not> is_captured (ps ! i)"
      and "case pos (ps ! i) of (Fin x, Fin y) \<Rightarrow> sqrt (x\<^sup>2 + y\<^sup>2) < 2 * G * M / C\<^sup>2
           | _ \<Rightarrow> False"
  proof -
    from that have "capture_test (ps ! i) = (ps ! i)\<lparr>is_captured := True\<rparr>"
      by (simp add: c [of "ps ! i"])
    then show ?thesis by (simp add: t update_captured)
  qed
  from t r c [of q] k show ?thesis by (simp add: tick_def)
qed

text \<open>
  With \<open>G = 1\<close>, \<open>M = 1000\<close> and \<open>C = 15\<close> a particle at \<open>(8, 0)\<close> is captured by
  the test of the first tick and not moved by it; a particle whose second coordinate is
  nan is not captured.
\<close>

theorem capture_test_before_update_witness:
  "sqrt (8\<^sup>2 + 0\<^sup>2) < 2 * G * M / C\<^sup>2 \<and>
   run_steps (Suc 0) [Particle (Some 8, Some 0) (Some 0, Some 0) 1 False] ! 0
     = (Particle (Some 8, Some 0) (Some 0, Some 0) 1 False)\<lparr>is_captured := True\<rparr> \<and>
   \<not> is_captured (capture_test (Particle (Some 1, None) (Some 0, Some 0) 1 False))"
proof -
  let ?p = "Particle (Some 8, Some 0) (Some 0, Some 0) 1 False"
  let ?q = "Particle (Some 1, None) (Some 0, Some 0) 1 False"
  have i: "0 < length [?p]" by simp
  have "sqrt (8\<^sup>2 + 0\<^sup>2) = (8::real)" using sqrt_sq_x [of 8] by simp
  then have c: "sqrt (8\<^sup>2 + 0\<^sup>2) < 2 * G * M / C\<^sup>2"
    by (simp add: G_def M_def C_def)
  have a: "\<not> is_captured ([?p] ! 0)" by (simp add: Particle_def)
  have x: "(case pos ([?p] ! 0) of (Fin x, Fin y) \<Rightarrow> sqrt (x\<^sup>2 + y\<^sup>2) < 2 * G * M / C\<^sup>2
            | _ \<Rightarrow> False)"
    using c by (simp add: Particle_def)
  note th = capture_test_before_update [OF i, of 0 ?q]
  from th a x have "tick [?p] ! 0 = ([?p] ! 0)\<lparr>is_captured := True\<rparr>" by blast
  then have 1: "run_steps (Suc 0) [?p] ! 0 = ?p\<lparr>is_captured := True\<rparr>" by simp
  from th have "capture_test ?q =
      ?q\<lparr>is_captured := is_captured ?q \<or>
         (case pos ?q of (Fin x, Fin y) \<Rightarrow> sqrt (x\<^sup>2 + y\<^sup>2) < 2 * G * M / C\<^sup>2
          | _ \<Rightarrow> False)\<rparr>"
    by blast
  then have 2: "\<not> is_captured (capture_test ?q)" by (simp add: Particle_def)
  from c 1 2 show ?thesis by (intro conjI)
qed

text \<open>
  C7. The captured flag is never reset. A captured particle is still captured after the
  capture test, after \<open>update\<close> and after a whole tick; hence a particle of the
  driver's list that is captured after \<open>m\<close> ticks is captured after \<open>m + n\<close> ticks,
  for every \<open>n\<close>.
\<close>

theorem captured_is_permanent:
  "(is_captured p \<longrightarrow>
      is_captured (capture_test p) \<and> is_captured (update dt bh p) \<and> is_captured (tick_particle p)) \<and>
   (i < length ps \<and> is_captured (run_steps m ps ! i) \<longrightarrow> is_captured (run_steps (m + n) ps ! i))"
  using ticks_captured_mono [of m "ps ! i" n]
  by (auto simp: run_steps_nth capture_test_is_captured update_is_captured tick_particle_is_captured)

theorem captured_is_permanent_witness:
  "is_captured (run_steps 1 [Particle (Some 8, Some 0) (Some 0, Some 0) 1 False] ! 0) \<and>
   is_captured (run_steps (1 + 2) [Particle (Some 8, Some 0) (Some 0, Some 0) 1 False] ! 0)"
proof -
  let ?ps = "[Particle (Some 8, Some 0) (Some 0, Some 0) 1 False]"
  have "is_captured (tick_particle (Particle (Some 8, Some 0) (Some 0, Some 0) 1 False))"
    by (simp add: tick_particle_is_captured dist_to_bh_def Particle_def vsub_origin
        vnorm_x_axis schwarzschild_radius_value)
  then have h: "is_captured (run_steps 1 ?ps ! 0)"
    by (simp only: run_steps_1 tick_def list.map nth_Cons_0)
  have i: "0 < length ?ps" by simp
  have "is_captured (run_steps (1 + 2) ?ps ! 0)"
    by (rule captured_is_permanent [THEN conjunct2, rule_format]) (rule conjI [OF i h])
  with h show ?thesis by (rule conjI)
qed

text \<open>
  C2, as the code has it. \<open>update\<close> tests the flag that the capture test of the same
  tick has just set, so the step of the capture tick is already skipped. If particle
  \<open>i\<close> is active after \<open>k\<close> ticks and captured after \<open>k + 1\<close>, then after every later
  tick it is the particle it was after \<open>k\<close> ticks with the flag set, and its path has
  the \<open>k\<close> elements of the first \<open>k\<close> ticks beyond those it started with: \<open>1 + k\<close>
  for a particle built by \<open>Particle\<close>.
\<close>

theorem capture_freezes_path:
  assumes "i < length ps"
    and "\<not> is_captured (run_steps k ps ! i)"
    and "is_captured (run_steps (Suc k) ps ! i)"
  shows "run_steps (Suc k + m) ps ! i = (run_steps k ps ! i)\<lparr>is_captured := True\<rparr> \<and>
         length (path (run_steps (Suc k + m) ps ! i)) = length (path (ps ! i)) + k"
proof -
  let ?q = "(tick_particle ^^ k) (ps ! i)"
  have nc: "\<not> is_captured ?q" using assms(1,2) by (simp add: run_steps_nth)
  have cp: "is_captured (tick_particle ?q)"
    using assms(3) run_steps_nth [OF assms(1), of "Suc k"] by simp
  have one: "tick_particle ?q = ?q\<lparr>is_captured := True\<rparr>"
    using nc cp by (rule tick_particle_capture)
  have "(tick_particle ^^ (m + Suc k)) (ps ! i) = (tick_particle ^^ m) ((tick_particle ^^ Suc k) (ps ! i))"
    by (simp only: funpow_add o_apply)
  then have "(tick_particle ^^ (Suc k + m)) (ps ! i) = (tick_particle ^^ m) (tick_particle ?q)"
    by (simp add: add.commute)
  also have "\<dots> = tick_particle ?q" using cp by (rule ticks_fixed)
  finally have all: "(tick_particle ^^ (Suc k + m)) (ps ! i) = ?q\<lparr>is_captured := True\<rparr>"
    using one by simp
  have "length (path ?q) = length (path (ps ! i)) + k" using nc by (rule ticks_path_active)
  with all show ?thesis
    using run_steps_nth [OF assms(1), of "Suc k + m"] run_steps_nth [OF assms(1), of k] by simp
qed

text \<open>
  A particle at \<open>(8, 0)\<close> is captured in the first tick (tick 0) and its path still
  has one element after that tick, not \<open>1 + (0 + 1)\<close>.
\<close>

theorem capture_tick_counterexample:
  "\<not> is_captured (run_steps 0 [Particle (Some 8, Some 0) (Some 0, Some 0) 1 False] ! 0) \<and>
   is_captured (run_steps (Suc 0) [Particle (Some 8, Some 0) (Some 0, Some 0) 1 False] ! 0) \<and>
   path (run_steps (Suc 0) [Particle (Some 8, Some 0) (Some 0, Some 0) 1 False] ! 0) = [(Fin 8, Fin 0)] \<and>
   length (path (run_steps (Suc 0) [Particle (Some 8, Some 0) (Some 0, Some 0) 1 False] ! 0))
     \<noteq> 1 + (0 + 1)"
proof -
  let ?p = "Particle (Some 8, Some 0) (Some 0, Some 0) 1 False"
  have a: "\<not> is_captured ?p" by (simp add: Particle_def)
  have b: "is_captured (tick_particle ?p)"
    by (simp add: tick_particle_is_captured dist_to_bh_def Particle_def vsub_origin
        vnorm_x_axis schwarzschild_radius_value)
  have c: "path (tick_particle ?p) = [(Fin 8, Fin 0)]"
    using tick_particle_path_captured [OF b] by (simp add: Particle_def)
  have d: "run_steps (Suc 0) [?p] ! 0 = tick_particle ?p"
    by (simp add: tick_def)
  show ?thesis unfolding d using a b c by simp
qed

text \<open>
  A particle at \<open>(9, 0)\<close> moving inwards with speed 20 is active after the first tick
  and captured in the second; its path keeps two elements.
\<close>

theorem capture_freezes_path_witness:
  "\<not> is_captured (run_steps 1 [Particle (Some 9, Some 0) (Some (- 20), Some 0) 1 False] ! 0) \<and>
   is_captured (run_steps (Suc 1) [Particle (Some 9, Some 0) (Some (- 20), Some 0) 1 False] ! 0) \<and>
   length (path (run_steps (Suc 1 + 3) [Particle (Some 9, Some 0) (Some (- 20), Some 0) 1 False] ! 0))
     = 1 + 1"
proof -
  let ?p = "Particle (Some 9, Some 0) (Some (- 20), Some 0) 1 False"
  have i: "0 < length [?p]" by simp
  have nc: "\<not> is_captured (capture_test ?p)"
    by (simp add: capture_test_is_captured dist_to_bh_def Particle_def vsub_origin
        vnorm_x_axis schwarzschild_radius_value)
  have ct: "capture_test ?p = ?p"
    by (simp add: capture_test_def dist_to_bh_def Particle_def vsub_origin
        vnorm_x_axis schwarzschild_radius_value)
  have r0: "sqrt ((0 - 9)\<^sup>2 + (0 - 0)\<^sup>2) = (9::real)" using sqrt_sq_x [of "- 9"] by simp
  have rm: "r_mag black_hole_pos ?p = Fin 9"
    unfolding black_hole_pos_def using r_mag_fin [of ?p 9 0 0 0] r0 by (simp add: Particle_def)
  have vg: "vel_gravity TIME_STEP black_hole_pos ?p =
              (Fin (- 20 + G * M / 9\<^sup>2 * ((0 - 9) / 9) * TIME_STEP),
               Fin (0 + G * M / 9\<^sup>2 * ((0 - 0) / 9) * TIME_STEP))"
    unfolding black_hole_pos_def
    by (rule vel_gravity_fin) (simp_all add: Particle_def r0)
  have t1: "tick_particle ?p =
              ?p\<lparr>vel := (Fin (- 1720 / 81), Fin 0), pos := (Fin (557 / 81), Fin 0),
                 path := [(Fin 9, Fin 0), (Fin (557 / 81), Fin 0)]\<rparr>"
    unfolding tick_particle_def ct
    by (simp add: update_def rm vg Let_def) (simp add: Particle_def G_def M_def TIME_STEP_def)
  have a: "\<not> is_captured (tick_particle ?p)"
    unfolding t1 by (simp add: Particle_def)
  have b: "is_captured (tick_particle (tick_particle ?p))"
    unfolding t1
    by (simp add: tick_particle_is_captured dist_to_bh_def Particle_def vsub_origin
        vnorm_x_axis schwarzschild_radius_value del: vnorm.simps)
  have a': "\<not> is_captured (run_steps 1 [?p] ! 0)"
    using a by (simp add: run_steps_1 tick_def)
  have b': "is_captured (run_steps (Suc 1) [?p] ! 0)"
    using b by (simp add: run_steps_1 tick_def)
  have l: "length (path ([?p] ! 0)) = 1" by (simp add: Particle_def)
  from capture_freezes_path [OF i a' b', of 3]
  have "length (path (run_steps (Suc 1 + 3) [?p] ! 0)) = length (path ([?p] ! 0)) + 1"
    by (rule conjunct2)
  then have "length (path (run_steps (Suc 1 + 3) [?p] ! 0)) = 1 + 1"
    by (simp only: l)
  with a' b' show ?thesis by (intro conjI)
qed

text \<open>
  C8. A new particle's path is the list of its initial position alone. \<open>update\<close> on an
  active particle away from the body appends the new position, and one element only;
  in every case the path before \<open>update\<close> is a prefix of the path after it, and so is
  the path of a particle of the driver's list before any number of ticks. A particle set
  up from its descriptor that is still active after \<open>n\<close> ticks has a path of \<open>1 + n\<close>
  elements, the first of which is its initial position.
\<close>

theorem path_append_only:
  "path (Particle x v ms ph) = [pos (Particle x v ms ph)] \<and>
   pos (Particle x v ms ph) = np_array x \<and>
   (\<not> is_captured p \<and> r_mag bh p \<noteq> Fin 0 \<longrightarrow>
      path (update dt bh p) = path p @ [pos (update dt bh p)]) \<and>
   prefix (path p) (path (update dt bh p)) \<and>
   (i < length ps \<longrightarrow> prefix (path (ps ! i)) (path (run_steps n ps ! i))) \<and>
   (i < length ds \<and> \<not> is_captured (run_steps n (init_particles ds) ! i) \<longrightarrow>
      length (path (run_steps n (init_particles ds) ! i)) = 1 + n \<and>
      hd (path (run_steps n (init_particles ds) ! i)) = pos (init_particle (ds ! i)))"
proof -
  have a: "path (Particle x v ms ph) = [pos (Particle x v ms ph)] \<and>
           pos (Particle x v ms ph) = np_array x"
    by (simp add: Particle_def)
  have b: "\<not> is_captured p \<and> r_mag bh p \<noteq> Fin 0 \<longrightarrow>
           path (update dt bh p) = path p @ [pos (update dt bh p)]"
    by (simp add: update_path_active)
  have c: "i < length ps \<longrightarrow> prefix (path (ps ! i)) (path (run_steps n ps ! i))"
    by (simp add: run_steps_nth ticks_path_prefix)
  have d: "length (path (run_steps n (init_particles ds) ! i)) = 1 + n \<and>
           hd (path (run_steps n (init_particles ds) ! i)) = pos (init_particle (ds ! i))"
    if i: "i < length ds" and act: "\<not> is_captured (run_steps n (init_particles ds) ! i)"
  proof -
    let ?p = "init_particle (ds ! i)"
    have eq: "run_steps n (init_particles ds) ! i = (tick_particle ^^ n) ?p"
      using i by (simp add: run_steps_nth init_particles_def)
    have len: "length (path ((tick_particle ^^ n) ?p)) = length (path ?p) + n"
      using act unfolding eq by (rule ticks_path_active)
    obtain ys where ys: "path ((tick_particle ^^ n) ?p) = path ?p @ ys"
      using ticks_path_prefix [of ?p n] by (auto simp: prefix_def)
    show ?thesis
      using len ys by (simp add: eq init_particle_path)
  qed
  from a b c d update_path_prefix [of p dt bh] show ?thesis by blast
qed

theorem path_append_only_witness:
  "\<not> is_captured (run_steps 1 (init_particles PARTICLES) ! 0) \<and>
   length (path (run_steps 1 (init_particles PARTICLES) ! 0)) = 1 + 1 \<and>
   hd (path (run_steps 1 (init_particles PARTICLES) ! 0)) = (Fin 100, Fin 0)"
proof -
  let ?p = "init_particle (PARTICLES ! 0)"
  have i: "0 < length PARTICLES" by (simp add: PARTICLES_def)
  have p: "?p = Particle (Some 100, Some 0) (Some 0, Some (15 / 2)) 1 False"
    by (simp add: PARTICLES_def init_particle_def)
  have "\<not> is_captured (tick_particle ?p)"
    unfolding p
    by (simp add: tick_particle_is_captured dist_to_bh_def Particle_def vsub_origin
        vnorm_x_axis schwarzschild_radius_value)
  then have a: "\<not> is_captured (run_steps 1 (init_particles PARTICLES) ! 0)"
    using i by (simp add: run_steps_1 tick_def init_particles_def)
  have x: "pos (init_particle (PARTICLES ! 0)) = (Fin 100, Fin 0)"
    unfolding p by (simp add: Particle_def)
  from path_append_only [where i = 0 and n = 1 and ds = PARTICLES]
    i a x
  show ?thesis by simp
qed

section \<open>Setting up the particles\<close>

text \<open>
  C9. A descriptor with an \<open>offset_factor\<close> \<open>f\<close> gives a particle whose second
  coordinate is \<open>schwarzschild_radius * f\<close>, whatever the descriptor's own second
  coordinate; the first coordinate is the descriptor's. A descriptor without one gives
  the position it states. That position is the one element of the initial path, and it
  stays the first element of the path after any number of ticks: the ticks do not
  resolve the offset again.
\<close>

theorem offset_factor_resolved:
  "(d_offset_factor d = Some f \<longrightarrow>
      pos (init_particle d) = (to_float (fst (d_pos d)), Fin (schwarzschild_radius * f))) \<and>
   (d_offset_factor d = None \<longrightarrow> pos (init_particle d) = np_array (d_pos d)) \<and>
   path (init_particle d) = [pos (init_particle d)] \<and>
   (i < length ds \<longrightarrow>
      hd (path (run_steps n (init_particles ds) ! i)) = pos (init_particle (ds ! i)))"
proof -
  have "hd (path (run_steps n (init_particles ds) ! i)) = pos (init_particle (ds ! i))"
    if i: "i < length ds"
  proof -
    let ?p = "init_particle (ds ! i)"
    obtain ys where "path ((tick_particle ^^ n) ?p) = path ?p @ ys"
      using ticks_path_prefix [of ?p n] by (auto simp: prefix_def)
    then show ?thesis using i by (simp add: run_steps_nth init_particles_def init_particle_path)
  qed
  then show ?thesis
    by (cases "d_pos d") (simp add: init_particle_def Particle_def Let_def)
qed

theorem offset_factor_resolved_witness:
  "d_offset_factor (PARTICLES ! 5) = Some (3 / 2) \<and>
   pos (init_particle (PARTICLES ! 5)) = (Fin (- 250), Fin (40 / 3)) \<and>
   d_offset_factor (PARTICLES ! 0) = None \<and>
   pos (init_particle (PARTICLES ! 0)) = (Fin 100, Fin 0) \<and>
   hd (path (run_steps STEPS (init_particles PARTICLES) ! 5)) = (Fin (- 250), Fin (40 / 3))"
proof -
  have a: "d_offset_factor (PARTICLES ! 5) = Some (3 / 2)" by (simp add: PARTICLES_def)
  have b: "d_offset_factor (PARTICLES ! 0) = None" by (simp add: PARTICLES_def)
  have c: "5 < length PARTICLES" by (simp add: PARTICLES_def)
  have d: "to_float (fst (d_pos (PARTICLES ! 5))) = Fin (- 250)" by (simp add: PARTICLES_def)
  have e: "np_array (d_pos (PARTICLES ! 0)) = (Fin 100, Fin 0)" by (simp add: PARTICLES_def)
  have f: "schwarzschild_radius * (3 / 2) = 40 / 3" by (simp add: schwarzschild_radius_value)
  from offset_factor_resolved [of "PARTICLES ! 5" "3 / 2" 5 PARTICLES STEPS] a c
  have g: "pos (init_particle (PARTICLES ! 5)) = (Fin (- 250), Fin (40 / 3))"
    and h: "hd (path (run_steps STEPS (init_particles PARTICLES) ! 5)) = pos (init_particle (PARTICLES ! 5))"
    by (simp_all only: d f)
  from offset_factor_resolved [of "PARTICLES ! 0" 0 0 PARTICLES 0] b
  have i: "pos (init_particle (PARTICLES ! 0)) = (Fin 100, Fin 0)"
    by (simp only: e)
  from a b g h i show ?thesis by simp
qed

end
